theory Spec2Isabelle
  imports Complex_Main
begin

text \<open>
  A model of the estimate generator: the estimate document and the state store that
  mutates it, the totals and the Korean currency words of the previews, and the handlers
  of the record service.  Each definition follows the source function of the same name.
\<close>

section \<open>JavaScript values\<close>

text \<open>
  A JavaScript string is a sequence of UTF-16 code units.  The Hangul text of the
  application does not fit into the 8-bit characters of \<open>string\<close>, so a string is modelled
  as the list of its code units; \<open>ascii\<close> embeds an ASCII literal.
\<close>

type_synonym jsstring = "nat list"

definition ascii :: "string \<Rightarrow> jsstring" where
  "ascii s = map of_char s"

text \<open>Truthiness of a string: only the empty string is falsy.\<close>

definition truthy :: "jsstring \<Rightarrow> bool" where
  "truthy s = (s \<noteq> [])"

text \<open>
  The nullish coalescing operator \<open>a ?? b\<close>.  An optional property of a \<open>Partial<T>\<close>
  is an \<open>option\<close>: \<open>None\<close> stands for a property that is absent (reading it gives
  \<open>undefined\<close>).
\<close>

definition nullish :: "'a option \<Rightarrow> 'a \<Rightarrow> 'a" where
  "nullish a b = (case a of None \<Rightarrow> b | Some v \<Rightarrow> v)"

text \<open>\<open>String(n)\<close> for a non-negative integer and \<open>padStart\<close> with a one-unit filler.\<close>

fun String_of_nat :: "nat \<Rightarrow> jsstring" where
  "String_of_nat n = (if n < 10 then [48 + n] else String_of_nat (n div 10) @ [48 + n mod 10])"

declare String_of_nat.simps [simp del]

definition padStart :: "nat \<Rightarrow> nat \<Rightarrow> jsstring \<Rightarrow> jsstring" where
  "padStart targetLength c s = replicate (targetLength - length s) c @ s"

text \<open>
  \<open>Array.prototype.splice(start, deleteCount, ...ins)\<close>: a negative start counts from the
  end, both start and delete count are clamped to the array.  The result is the pair of
  the removed elements and the array after the call.
\<close>

definition splice_start :: "int \<Rightarrow> nat \<Rightarrow> nat" where
  "splice_start start len =
     (if start < 0 then nat (max (int len + start) 0) else min (nat start) len)"

definition splice :: "int \<Rightarrow> nat \<Rightarrow> 'a list \<Rightarrow> 'a list \<Rightarrow> 'a list \<times> 'a list" where
  "splice start deleteCount ins xs =
     (let s = splice_start start (length xs);
          d = min deleteCount (length xs - s)
      in (take d (drop s xs), take s xs @ ins @ drop (s + d) xs))"

text \<open>The callbacks of \<open>filter\<close> and \<open>map\<close> that look at the index \<open>(_, i)\<close>.\<close>

definition filter_index :: "(nat \<Rightarrow> bool) \<Rightarrow> 'a list \<Rightarrow> 'a list" where
  "filter_index p xs = map snd (filter (\<lambda>(i, x). p i) (enumerate 0 xs))"

definition map_index :: "('a \<Rightarrow> nat \<Rightarrow> 'b) \<Rightarrow> 'a list \<Rightarrow> 'b list" where
  "map_index f xs = map (\<lambda>(i, x). f x i) (enumerate 0 xs)"


section \<open>Data model (types/estimate.ts)\<close>

datatype TaxOption = Including | Excluding

record Item =
  name :: jsstring
  quantity :: nat
  price :: nat
  spec :: jsstring
  "note" :: jsstring

record Supplier =
  name :: jsstring
  companyName :: jsstring
  address :: jsstring
  businessType :: jsstring
  businessItem :: jsstring
  phone :: jsstring
  fax :: jsstring
  businessNumber :: jsstring
  companyEmail :: jsstring
  accountNumber :: jsstring
  homepage :: jsstring
  logo :: "jsstring option"
  businessFields :: jsstring
  footerNotes :: jsstring

record Client =
  name :: jsstring
  phone :: jsstring
  email :: jsstring
  address :: jsstring

text \<open>
  \<open>EstimateData\<close>.  The record is polymorphic in the entries of \<open>items\<close>: a document of
  the declared type is an \<open>Item EstimateData\<close>; \<open>moveItem\<close> can put \<open>undefined\<close> into
  the array, so it works on \<open>Item option EstimateData\<close>.
\<close>

record 'i EstimateData =
  estimateNumber :: jsstring
  estimateDate :: jsstring
  constructionStartDate :: jsstring
  constructionEndDate :: jsstring
  constructionDate :: jsstring
  client :: Client
  clientName :: jsstring
  clientPhone :: jsstring
  clientEmail :: jsstring
  supplier :: Supplier
  items :: "'i list"
  taxOption :: TaxOption
  businessFields :: jsstring
  footerNotes :: jsstring

text \<open>\<open>Partial<Client>\<close> and \<open>Partial<Item>\<close>.\<close>

record ClientPartial =
  name :: "jsstring option"
  phone :: "jsstring option"
  email :: "jsstring option"
  address :: "jsstring option"

record ItemPartial =
  name :: "jsstring option"
  quantity :: "nat option"
  price :: "nat option"
  spec :: "jsstring option"
  "note" :: "jsstring option"

text \<open>The object spreads \<open>{ ...prev.client, ...client }\<close> and \<open>{ ...existing, ...item }\<close>.\<close>

definition spread_Client :: "Client \<Rightarrow> ClientPartial \<Rightarrow> Client" where
  "spread_Client c p =
     \<lparr>Client.name = nullish (ClientPartial.name p) (Client.name c),
      Client.phone = nullish (ClientPartial.phone p) (Client.phone c),
      Client.email = nullish (ClientPartial.email p) (Client.email c),
      Client.address = nullish (ClientPartial.address p) (Client.address c)\<rparr>"

definition spread_Item :: "Item \<Rightarrow> ItemPartial \<Rightarrow> Item" where
  "spread_Item x p =
     \<lparr>Item.name = nullish (ItemPartial.name p) (Item.name x),
      Item.quantity = nullish (ItemPartial.quantity p) (Item.quantity x),
      Item.price = nullish (ItemPartial.price p) (Item.price x),
      Item.spec = nullish (ItemPartial.spec p) (Item.spec x),
      Item.note = nullish (ItemPartial.note p) (Item.note x)\<rparr>"


section \<open>Estimate helpers (utils/estimate.ts)\<close>

definition DEFAULT_businessFields :: jsstring where
  "DEFAULT_businessFields =
     [50728, 46972, 51064, 32, 44053, 51032, 32, 8226, 32, 50724, 54532, 46972, 51064, 32,
      53945, 44053, 32, 8226, 32, 44592, 50629, 32, 52968, 49444, 54021, 32, 8226, 32,
      54532, 47196, 44536, 47016, 32, 48372, 50504, 47, 51228, 51089]"

definition DEFAULT_footerNotes :: jsstring where
  "DEFAULT_footerNotes =
     [9679, 32, 50724, 48736, 46160, 50641, 49472, 32, 40, 119, 119, 119, 46, 111, 112, 112,
      97, 100, 117, 46, 99, 111, 109, 41, 32, 54856, 54168, 51060, 51648, 50640, 49436,
      32, 50728, 46972, 51064, 51004, 47196, 32, 44396, 47588, 32, 54869, 51221, 54644,
      51452, 49464, 50836, 46, 10, 9679, 32, 49324, 50629, 51088, 46321, 47197, 51613,
      51008, 32, 54057, 49828, 32, 46608, 45716, 32, 51060, 47700, 51068, 40, 105, 110,
      102, 111, 64, 111, 112, 112, 97, 100, 117, 46, 99, 111, 109, 41, 51004, 47196, 32,
      51204, 45804, 32, 48512, 53441, 46300, 47549, 45768, 45796, 46, 10, 9679, 32,
      54532, 47196, 44536, 47016, 32, 46972, 51060, 49440, 32, 54596, 50836, 49884, 32,
      51228, 51089, 44592, 44036, 32, 50557, 32, 51, 126, 49, 53, 51068, 32, 49548,
      50836, 32, 47, 32, 52628, 44032, 48708, 50857, 32, 48512, 44284, 46121, 45768,
      45796, 46, 10, 9679, 32, 46020, 49884, 47, 49328, 44036, 51648, 50669, 51032, 32,
      44221, 50864, 32, 52628, 44032, 32, 48176, 49569, 48708, 44032, 32, 48512, 44284,
      46121, 45768, 45796, 46]"

definition DEFAULT_SUPPLIER :: Supplier where
  "DEFAULT_SUPPLIER =
    \<lparr>Supplier.name = [53580, 49828, 53944],
     companyName = [50724, 48736, 46160, 50641, 49472],
     Supplier.address = [49436, 50872, 32, 44053, 45224, 44396, 32, 53580, 54756, 46976, 47196, 32, 49, 52, 49,
                45, 50],
     businessType = [51204, 51088, 49345, 44144, 47000],
     businessItem = [50728, 46972, 51064, 51228, 54408],
     Supplier.phone = ascii ''02) 123-4848'',
     fax = [],
     businessNumber = ascii ''123-01-01249'',
     companyEmail = ascii ''info@oppadu.com'',
     accountNumber = [],
     homepage = ascii ''www.oppadu.com'',
     logo = None,
     Supplier.businessFields = DEFAULT_businessFields,
     Supplier.footerNotes = DEFAULT_footerNotes\<rparr>"

definition EMPTY_CLIENT :: Client where
  "EMPTY_CLIENT =
     \<lparr>Client.name = [], Client.phone = [], Client.email = [], Client.address = []\<rparr>"

text \<open>
  The sequence store.  \<open>generateSequenceStore\<close> gives a store that reads \<open>{}\<close> and
  drops every write when there is no \<open>window\<close>; otherwise it reads the item
  \<open>estimateNumbers\<close> of \<open>localStorage\<close> (a missing or unparsable item reads as \<open>{}\<close>)
  and writes it back, a failing \<open>setItem\<close> being caught and logged.  The environment
  holds the parsed item as a map from date keys to counts (the record's own properties),
  whether \<open>window\<close> is defined, and whether \<open>setItem\<close> succeeds.
\<close>

record Storage =
  window_defined :: bool
  estimateNumbers :: "jsstring \<rightharpoonup> nat"
  setItem_ok :: bool

definition store_read :: "Storage \<Rightarrow> (jsstring \<rightharpoonup> nat)" where
  "store_read env = (if window_defined env then estimateNumbers env else Map.empty)"

definition store_write :: "(jsstring \<rightharpoonup> nat) \<Rightarrow> Storage \<Rightarrow> Storage" where
  "store_write v env =
     (if window_defined env \<and> setItem_ok env then env\<lparr>estimateNumbers := v\<rparr> else env)"

text \<open>\<open>date.replace(/-/g, '')\<close>: the hyphen is code unit 45.\<close>

definition dateKey_of :: "jsstring \<Rightarrow> jsstring" where
  "dateKey_of date = filter (\<lambda>c. c \<noteq> 45) date"

text \<open>\<open>sequences[dateKey] || 0\<close>: a missing entry is \<open>undefined\<close>, which is falsy, as is 0.\<close>

definition count_or_0 :: "(jsstring \<rightharpoonup> nat) \<Rightarrow> jsstring \<Rightarrow> nat" where
  "count_or_0 sequences dateKey = (case sequences dateKey of None \<Rightarrow> 0 | Some n \<Rightarrow> n)"

definition generateEstimateNumber :: "jsstring \<Rightarrow> Storage \<Rightarrow> jsstring \<times> Storage" where
  "generateEstimateNumber date env =
     (let dateKey = dateKey_of date;
          sequences = store_read env;
          nextCount = count_or_0 sequences dateKey + 1;
          updated = sequences(dateKey \<mapsto> nextCount);
          env' = store_write updated env
      in (dateKey @ ascii ''-'' @ padStart 3 48 (String_of_nat nextCount), env'))"

definition createBlankItem :: Item where
  "createBlankItem =
     \<lparr>Item.name = [], Item.quantity = 1, Item.price = 0, Item.spec = ascii ''EA'',
      Item.note = []\<rparr>"

definition createInitialEstimate :: "jsstring \<Rightarrow> Storage \<Rightarrow> 'i EstimateData \<times> Storage" where
  "createInitialEstimate date env =
     (let (number, env') = generateEstimateNumber date env
      in (\<lparr>estimateNumber = number,
           estimateDate = date,
           constructionStartDate = [],
           constructionEndDate = [],
           constructionDate = [],
           client = EMPTY_CLIENT,
           clientName = [],
           clientPhone = [],
           clientEmail = [],
           supplier = DEFAULT_SUPPLIER,
           items = [],
           taxOption = Excluding,
           businessFields = Supplier.businessFields DEFAULT_SUPPLIER,
           footerNotes = Supplier.footerNotes DEFAULT_SUPPLIER\<rparr>, env'))"

definition hasMeaningfulEstimateData :: "'i EstimateData \<Rightarrow> bool" where
  "hasMeaningfulEstimateData estimate =
     (if length (items estimate) > 0 then True
      else if truthy (Client.name (client estimate)) \<or> truthy (Client.phone (client estimate))
              \<or> truthy (Client.email (client estimate))
              \<or> truthy (Client.address (client estimate)) then True
      else if truthy (constructionStartDate estimate) \<or> truthy (constructionEndDate estimate)
              \<or> truthy (constructionDate estimate) then True
      else if businessFields estimate \<noteq> Supplier.businessFields DEFAULT_SUPPLIER then True
      else if footerNotes estimate \<noteq> Supplier.footerNotes DEFAULT_SUPPLIER then True
      else False)"


section \<open>The estimate state store (state/EstimateContext.tsx)\<close>

text \<open>
  The provider holds the current document and the identity of the saved record it is
  bound to.  Every mutation is the updater passed to \<open>setEstimate\<close>: a function from the
  previous document to the next one.  Operations that reach the sequence store also take
  and return the storage environment.
\<close>

record 'i Provider =
  estimate :: "'i EstimateData"
  currentEstimateId :: "jsstring option"

text \<open>A call \<open>updateField(field, value)\<close>: the field together with a value of its type.\<close>

datatype 'i FieldValue =
    F_estimateNumber jsstring
  | F_estimateDate jsstring
  | F_constructionStartDate jsstring
  | F_constructionEndDate jsstring
  | F_constructionDate jsstring
  | F_client Client
  | F_clientName jsstring
  | F_clientPhone jsstring
  | F_clientEmail jsstring
  | F_supplier Supplier
  | F_items "'i list"
  | F_taxOption TaxOption
  | F_businessFields jsstring
  | F_footerNotes jsstring

fun assign_field :: "'i FieldValue \<Rightarrow> 'i EstimateData \<Rightarrow> 'i EstimateData" where
  "assign_field (F_estimateNumber v) prev = prev\<lparr>estimateNumber := v\<rparr>"
| "assign_field (F_estimateDate v) prev = prev\<lparr>estimateDate := v\<rparr>"
| "assign_field (F_constructionStartDate v) prev = prev\<lparr>constructionStartDate := v\<rparr>"
| "assign_field (F_constructionEndDate v) prev = prev\<lparr>constructionEndDate := v\<rparr>"
| "assign_field (F_constructionDate v) prev = prev\<lparr>constructionDate := v\<rparr>"
| "assign_field (F_client v) prev = prev\<lparr>client := v\<rparr>"
| "assign_field (F_clientName v) prev = prev\<lparr>clientName := v\<rparr>"
| "assign_field (F_clientPhone v) prev = prev\<lparr>clientPhone := v\<rparr>"
| "assign_field (F_clientEmail v) prev = prev\<lparr>clientEmail := v\<rparr>"
| "assign_field (F_supplier v) prev = prev\<lparr>supplier := v\<rparr>"
| "assign_field (F_items v) prev = prev\<lparr>items := v\<rparr>"
| "assign_field (F_taxOption v) prev = prev\<lparr>taxOption := v\<rparr>"
| "assign_field (F_businessFields v) prev = prev\<lparr>businessFields := v\<rparr>"
| "assign_field (F_footerNotes v) prev = prev\<lparr>footerNotes := v\<rparr>"

fun updateField :: "'i FieldValue \<Rightarrow> 'i EstimateData \<Rightarrow> Storage \<Rightarrow> 'i EstimateData \<times> Storage" where
  "updateField (F_estimateDate v) prev env =
     (let next = assign_field (F_estimateDate v) prev;
          (number, env') = generateEstimateNumber v env
      in (next\<lparr>estimateNumber := number\<rparr>, env'))"
| "updateField fv prev env = (assign_field fv prev, env)"

definition updateClient :: "ClientPartial \<Rightarrow> 'i EstimateData \<Rightarrow> 'i EstimateData" where
  "updateClient partial prev =
     prev\<lparr>client := spread_Client (client prev) partial,
          clientName := nullish (ClientPartial.name partial) (clientName prev),
          clientPhone := nullish (ClientPartial.phone partial) (clientPhone prev),
          clientEmail := nullish (ClientPartial.email partial) (clientEmail prev)\<rparr>"

definition replaceEstimate :: "'i EstimateData \<Rightarrow> 'i EstimateData \<Rightarrow> 'i EstimateData" where
  "replaceEstimate nextEstimate prev = nextEstimate"

definition removeItem :: "int \<Rightarrow> 'i EstimateData \<Rightarrow> 'i EstimateData" where
  "removeItem index prev = prev\<lparr>items := filter_index (\<lambda>i. int i \<noteq> index) (items prev)\<rparr>"

text \<open>
  \<open>moveItem\<close>: \<open>const [removed] = nextItems.splice(from, 1)\<close> binds \<open>undefined\<close> when
  nothing was removed, and the second splice inserts whatever \<open>removed\<close> is.  The entries
  of the array are therefore optional items, \<open>None\<close> being \<open>undefined\<close>.
\<close>

definition moveItem :: "int \<Rightarrow> int \<Rightarrow> 'a option EstimateData \<Rightarrow> 'a option EstimateData" where
  "moveItem from to prev =
     (if from = to then prev
      else let (removedItems, afterRemove) = splice from 1 [] (items prev);
               removed = (case removedItems of [] \<Rightarrow> None | r # _ \<Rightarrow> r);
               (_, nextItems) = splice to 0 [removed] afterRemove
           in prev\<lparr>items := nextItems\<rparr>)"

definition updateItem :: "int \<Rightarrow> ItemPartial \<Rightarrow> Item EstimateData \<Rightarrow> Item EstimateData" where
  "updateItem index item prev =
     prev\<lparr>items := map_index (\<lambda>existing i. if int i = index then spread_Item existing item
                                  else existing) (items prev)\<rparr>"

definition appendItems :: "'i list \<Rightarrow> 'i EstimateData \<Rightarrow> 'i EstimateData" where
  "appendItems new prev = prev\<lparr>items := items prev @ new\<rparr>"

text \<open>
  \<open>resetEstimate\<close> takes today's date (the default argument of \<open>createInitialEstimate\<close>)
  as a parameter; \<open>hasDirtyState\<close> reads the provider's current document.
\<close>

definition resetEstimate :: "jsstring \<Rightarrow> 'i Provider \<Rightarrow> Storage \<Rightarrow> 'i Provider \<times> Storage" where
  "resetEstimate today st env =
     (let (fresh, env') = createInitialEstimate today env
      in (st\<lparr>estimate := fresh, currentEstimateId := None\<rparr>, env'))"

definition hasDirtyState :: "'i Provider \<Rightarrow> bool" where
  "hasDirtyState st = hasMeaningfulEstimateData (estimate st)"


section \<open>Number arithmetic of the totals\<close>

text \<open>
  A JavaScript number is an IEEE-754 double.  Sums and products of the integer amounts
  are exact as long as they stay below \<open>2^53\<close>, and are modelled by \<open>nat\<close> arithmetic.
  The two operations of the totals that leave the integers, \<open>x / 1.1\<close> and \<open>x * 0.1\<close>,
  are modelled with the rounding the hardware performs: the exact quotient \<open>N / D\<close> of two
  positive integers is scaled by a power of two into \<open>[2^52, 2^53)\<close> and rounded to the
  nearest integer, ties to even; the double is that 53-bit mantissa times the power of two
  (exponents of this size are far from the overflow and underflow thresholds).
\<close>

fun bitlen :: "nat \<Rightarrow> nat" where
  "bitlen n = (if n = 0 then 0 else Suc (bitlen (n div 2)))"

declare bitlen.simps [simp del]

text \<open>
  \<open>scale53 N D = (N', D', e)\<close> with \<open>N / D = (N' / D') * 2^e\<close> and
  \<open>2^52 \<le> N' / D' < 2^53\<close>.  The binary logarithm of \<open>N / D\<close> is \<open>k\<close> or \<open>k - 1\<close> for
  the difference \<open>k\<close> of the bit lengths.
\<close>

definition scale53 :: "nat \<Rightarrow> nat \<Rightarrow> nat \<times> nat \<times> int" where
  "scale53 N D =
     (let k = int (bitlen N) - int (bitlen D);
          lg = (if (if 0 \<le> k then D * 2 ^ nat k \<le> N else D \<le> N * 2 ^ nat (- k)) then k
                else k - 1);
          s = 52 - lg
      in if 0 \<le> s then (N * 2 ^ nat s, D, - s) else (N, D * 2 ^ nat (- s), - s))"

definition round_half_even :: "nat \<Rightarrow> nat \<Rightarrow> nat" where
  "round_half_even N D =
     (let q = N div D; r = N mod D
      in if 2 * r < D then q else if D < 2 * r then q + 1 else if even q then q else q + 1)"

text \<open>A non-negative double: the value \<open>mantissa * 2^exponent\<close>.\<close>

type_synonym double = "nat \<times> int"

definition fl :: "nat \<Rightarrow> nat \<Rightarrow> double" where
  "fl N D = (if N = 0 then (0, 0) else let (N', D', e) = scale53 N D in (round_half_even N' D', e))"

definition Math_floor :: "double \<Rightarrow> nat" where
  "Math_floor x = (case x of (m, e) \<Rightarrow> if 0 \<le> e then m * 2 ^ nat e else m div 2 ^ nat (- e))"

text \<open>
  The literals: \<open>1.1\<close> is the double \<open>4953959590107546 / 2^52\<close> and \<open>0.1\<close> is the double
  \<open>3602879701896397 / 2^55\<close>.  \<open>div_1_1 x\<close> is the expression \<open>x / 1.1\<close> and \<open>mul_0_1 x\<close>
  the expression \<open>x * 0.1\<close>, for an integer \<open>x\<close>.
\<close>

definition div_1_1 :: "nat \<Rightarrow> double" where
  "div_1_1 x = fl (x * 2 ^ 52) 4953959590107546"

definition mul_0_1 :: "nat \<Rightarrow> double" where
  "mul_0_1 x = fl (x * 3602879701896397) (2 ^ 55)"


section \<open>Totals and per-line amounts of the previews\<close>

record Totals =
  subtotal :: nat
  taxAmount :: nat
  total :: nat

text \<open>\<open>useTotals\<close> of \<open>EstimatePreview_New\<close>: the \<open>forEach\<close> loop is a left fold.\<close>

definition useTotals :: "Item list \<Rightarrow> TaxOption \<Rightarrow> Totals" where
  "useTotals its opt =
     (let subtotal = foldl (\<lambda>subtotal item.
            if opt = Including
            then (let unitPrice = Math_floor (div_1_1 (Item.price item))
                  in subtotal + unitPrice * Item.quantity item)
            else subtotal + Item.price item * Item.quantity item) 0 its;
          taxAmount = Math_floor (mul_0_1 subtotal);
          total = subtotal + taxAmount
      in \<lparr>subtotal = subtotal, taxAmount = taxAmount, total = total\<rparr>)"

text \<open>\<open>calculateTotals\<close> of \<open>EstimatePreview\<close>, which reads the document it was given.\<close>

definition calculateTotals :: "Item EstimateData \<Rightarrow> Totals" where
  "calculateTotals estimateData =
     (let subtotal = foldl (\<lambda>subtotal item.
            if taxOption estimateData = Including
            then (let unitPrice = Math_floor (div_1_1 (Item.price item))
                  in subtotal + unitPrice * Item.quantity item)
            else subtotal + Item.price item * Item.quantity item) 0 (items estimateData);
          taxAmount = Math_floor (mul_0_1 subtotal);
          total = subtotal + taxAmount
      in \<lparr>subtotal = subtotal, taxAmount = taxAmount, total = total\<rparr>)"




section \<open>Korean currency words\<close>

text \<open>
  The syllables, as code units.  Reading an array past its end gives \<open>undefined\<close>, which
  string concatenation turns into the text \<open>undefined\<close>.  The amount is a non-negative
  integer; \<open>%\<close> and \<open>Math.floor(num / 10000)\<close> are exact on the integers a double holds
  exactly and are modelled by \<open>mod\<close> and \<open>div\<close>.
\<close>

definition cheon :: jsstring where "cheon = [52380]"
definition baek :: jsstring where "baek = [48177]"
definition sip :: jsstring where "sip = [49901]"
definition wonjeong :: jsstring where "wonjeong = [50896, 51221]"
definition yeongwonjeong :: jsstring where "yeongwonjeong = [50689, 50896, 51221]"

definition at_index :: "jsstring list \<Rightarrow> nat \<Rightarrow> jsstring" where
  "at_index arr i = (if i < length arr then arr ! i else ascii ''undefined'')"

text \<open>\<open>units\<close> and \<open>digits\<close> of \<open>EstimatePreview\<close> and of \<open>EstimatePreview_New\<close>.\<close>

definition units5 :: "jsstring list" where
  "units5 = [[], [47564], [50613], [51312], [44221]]"

definition digits10 :: "jsstring list" where
  "digits10 = [[50689], [51068], [51060], [49340], [49324], [50724], [50977], [52832],
               [54036], [44396]]"

text \<open>Those of the third preview: no fifth unit, and an empty word for the digit 0.\<close>

definition units4 :: "jsstring list" where
  "units4 = [[], [47564], [50613], [51312]]"

definition digits10_blank0 :: "jsstring list" where
  "digits10_blank0 = [[], [51068], [51060], [49340], [49324], [50724], [50977], [52832],
                      [54036], [44396]]"

text \<open>The body of the loop that renders one group of four decimal digits.\<close>

definition partStr_numberToKorean :: "nat \<Rightarrow> jsstring" where
  "partStr_numberToKorean part =
     (let thousands = part div 1000;
          hundreds = (part mod 1000) div 100;
          tens = (part mod 100) div 10;
          ones = part mod 10;
          s1 = (if thousands > 0
                then (if thousands = 1 then cheon else at_index digits10 thousands @ cheon)
                else []);
          s2 = s1 @ (if hundreds > 0
                then (if hundreds = 1 then baek else at_index digits10 hundreds @ baek)
                else []);
          s3 = s2 @ (if tens > 0
                then (if tens = 1 then sip else at_index digits10 tens @ sip)
                else []);
          s4 = s3 @ (if ones > 0 then at_index digits10 ones else [])
      in s4)"

definition partStr_formatKoreanCurrency :: "nat \<Rightarrow> jsstring" where
  "partStr_formatKoreanCurrency part =
     (let thousands = part div 1000;
          hundreds = (part mod 1000) div 100;
          tens = (part mod 100) div 10;
          ones = part mod 10;
          s1 = (if thousands > 0
                then (if thousands = 1 then [] else at_index digits10 thousands) @ cheon
                else []);
          s2 = s1 @ (if hundreds > 0
                then (if hundreds = 1 then [] else at_index digits10 hundreds) @ baek
                else []);
          s3 = s2 @ (if tens > 0
                then (if tens = 1 then [] else at_index digits10 tens) @ sip
                else []);
          s4 = s3 @ (if ones > 0 then at_index digits10 ones else [])
      in s4)"

definition partStr_numberToKorean3 :: "nat \<Rightarrow> jsstring" where
  "partStr_numberToKorean3 part =
     (let thousands = part div 1000;
          hundreds = (part mod 1000) div 100;
          tens = (part mod 100) div 10;
          ones = part mod 10;
          s1 = (if thousands > 0
                then (if thousands = 1 then [] else at_index digits10_blank0 thousands) @ cheon
                else []);
          s2 = s1 @ (if hundreds > 0
                then (if hundreds = 1 then [] else at_index digits10_blank0 hundreds) @ baek
                else []);
          s3 = s2 @ (if tens > 0
                then (if tens = 1 then sip else at_index digits10_blank0 tens @ sip)
                else []);
          s4 = s3 @ (if ones > 0 then at_index digits10_blank0 ones else [])
      in s4)"

text \<open>The \<open>while (num > 0)\<close> loops, with the variables \<open>num\<close>, \<open>unitIndex\<close>, \<open>result\<close>.\<close>

function loop_numberToKorean :: "nat \<Rightarrow> nat \<Rightarrow> jsstring \<Rightarrow> jsstring" where
  "loop_numberToKorean num unitIndex result =
     (if num > 0
      then (let part = num mod 10000;
                result' = (if part > 0
                           then partStr_numberToKorean part @ at_index units5 unitIndex @ result
                           else result)
            in loop_numberToKorean (num div 10000) (unitIndex + 1) result')
      else result)"
  by pat_completeness auto
termination
  by (relation "measure (\<lambda>(num, unitIndex, result). num)") auto

declare loop_numberToKorean.simps [simp del]

function loop_formatKoreanCurrency :: "nat \<Rightarrow> nat \<Rightarrow> jsstring \<Rightarrow> jsstring" where
  "loop_formatKoreanCurrency amount unitIndex result =
     (if amount > 0
      then (let part = amount mod 10000;
                result' = (if part > 0
                           then partStr_formatKoreanCurrency part @ at_index units5 unitIndex
                                @ result
                           else result)
            in loop_formatKoreanCurrency (amount div 10000) (unitIndex + 1) result')
      else result)"
  by pat_completeness auto
termination
  by (relation "measure (\<lambda>(amount, unitIndex, result). amount)") auto

declare loop_formatKoreanCurrency.simps [simp del]

function loop_numberToKorean3 :: "nat \<Rightarrow> nat \<Rightarrow> jsstring \<Rightarrow> jsstring" where
  "loop_numberToKorean3 num unitIndex result =
     (if num > 0
      then (let part = num mod 10000;
                result' = (if part > 0
                           then partStr_numberToKorean3 part @ at_index units4 unitIndex @ result
                           else result)
            in loop_numberToKorean3 (num div 10000) (unitIndex + 1) result')
      else result)"
  by pat_completeness auto
termination
  by (relation "measure (\<lambda>(num, unitIndex, result). num)") auto

declare loop_numberToKorean3.simps [simp del]

text \<open>
  \<open>numberToKorean\<close> of \<open>EstimatePreview\<close>, \<open>formatKoreanCurrency\<close> of
  \<open>EstimatePreview_New\<close>, and \<open>numberToKorean\<close> of the third preview.
\<close>

definition numberToKorean :: "nat \<Rightarrow> jsstring" where
  "numberToKorean num =
     (if num = 0 then yeongwonjeong else loop_numberToKorean num 0 [] @ wonjeong)"

definition formatKoreanCurrency :: "nat \<Rightarrow> jsstring" where
  "formatKoreanCurrency v =
     (if v = 0 then yeongwonjeong else loop_formatKoreanCurrency v 0 [] @ wonjeong)"

definition numberToKorean3 :: "nat \<Rightarrow> jsstring" where
  "numberToKorean3 num =
     (if num = 0 then yeongwonjeong else loop_numberToKorean3 num 0 [] @ wonjeong)"


section \<open>The record service (server/index.tsx)\<close>

text \<open>
  A handler answers with \<open>c.json(body)\<close>, status 200, or with \<open>c.json({ error }, status)\<close>.
  A success carries the message and the payload (the collection or the record).
\<close>

datatype 'a Response = Success string 'a | Failure nat string

text \<open>
  The key-value store: one array per user under each of the four key prefixes
  \<open>user_suppliers_\<close>, \<open>user_clients_\<close>, \<open>user_item_templates_\<close>, \<open>user_estimates_\<close>.
  \<open>(await kv.get(key)) || []\<close> reads a missing key as the empty array.  The store, the
  verifier of tokens and the parsing of the request body are taken to answer: their
  failures, which every handler turns into status 500, are outside the model.
\<close>

record SavedEstimate =
  body :: "Item EstimateData"
  id' :: jsstring
  createdAt :: nat
  updatedAt :: nat

record KV =
  user_suppliers :: "jsstring \<rightharpoonup> Supplier list"
  user_clients :: "jsstring \<rightharpoonup> Client list"
  user_item_templates :: "jsstring \<rightharpoonup> Item list"
  user_estimates :: "jsstring \<rightharpoonup> SavedEstimate list"

definition get_or_empty :: "(jsstring \<rightharpoonup> 'a list) \<Rightarrow> jsstring \<Rightarrow> 'a list" where
  "get_or_empty m key = (case m key of None \<Rightarrow> [] | Some xs \<Rightarrow> xs)"

text \<open>\<open>Array.prototype.findIndex\<close>: the first index whose element satisfies \<open>p\<close>, else \<open>-1\<close>.\<close>

fun findIndex :: "('a \<Rightarrow> bool) \<Rightarrow> 'a list \<Rightarrow> int" where
  "findIndex p [] = - 1"
| "findIndex p (x # xs) =
     (if p x then 0 else (let i = findIndex p xs in if i < 0 then - 1 else i + 1))"

text \<open>
  Authentication, the first lines of every handler.  The token is the second piece of
  the \<open>Authorization\<close> header split at spaces (code unit 32); \<open>getUserFromToken\<close> asks the
  external verifier, here the parameter \<open>verify\<close>, which gives the user's id or nothing.
  A refusal is the status and the error text of the answer.
\<close>

fun split_space :: "jsstring \<Rightarrow> jsstring list" where
  "split_space [] = [[]]"
| "split_space (c # s) =
     (if c = 32 then [] # split_space s
      else (case split_space s of [] \<Rightarrow> [[c]] | w # ws \<Rightarrow> (c # w) # ws))"

definition accessToken_of :: "jsstring option \<Rightarrow> jsstring option" where
  "accessToken_of header =
     (case header of
        None \<Rightarrow> None
      | Some h \<Rightarrow> (case split_space h of _ # tok # _ \<Rightarrow> Some tok | _ \<Rightarrow> None))"

definition authenticate ::
  "(jsstring \<Rightarrow> jsstring option) \<Rightarrow> jsstring option \<Rightarrow> (nat \<times> string) + jsstring" where
  "authenticate verify header =
     (case accessToken_of header of
        None \<Rightarrow> Inl (401, ''No access token provided'')
      | Some accessToken \<Rightarrow>
          if \<not> truthy accessToken then Inl (401, ''No access token provided'')
          else (case verify accessToken of
                  None \<Rightarrow> Inl (401, ''Invalid access token'')
                | Some user_id \<Rightarrow> Inr user_id))"

text \<open>
  \<open>decodeURIComponent\<close>, after the \<open>Decode\<close> operation of ECMA-262: an escape \<open>%XX\<close> is
  one octet; an octet below 128 is a character, otherwise it starts a UTF-8 sequence of
  two to four escaped octets.  \<open>None\<close> is the \<open>URIError\<close> the function throws on a
  truncated or non-hexadecimal escape and on octets that are not well-formed UTF-8.
\<close>

definition hexval :: "nat \<Rightarrow> nat option" where
  "hexval c =
     (if 48 \<le> c \<and> c \<le> 57 then Some (c - 48)
      else if 65 \<le> c \<and> c \<le> 70 then Some (c - 55)
      else if 97 \<le> c \<and> c \<le> 102 then Some (c - 87)
      else None)"

fun take_octet :: "jsstring \<Rightarrow> (nat \<times> jsstring) option" where
  "take_octet (c # h1 # h2 # rest) =
     (if c = 37
      then (case (hexval h1, hexval h2) of
              (Some a, Some b) \<Rightarrow> Some (16 * a + b, rest)
            | _ \<Rightarrow> None)
      else None)"
| "take_octet _ = None"

fun take_octets :: "nat \<Rightarrow> jsstring \<Rightarrow> (nat list \<times> jsstring) option" where
  "take_octets 0 s = Some ([], s)"
| "take_octets (Suc n) s =
     (case take_octet s of
        None \<Rightarrow> None
      | Some (b, rest) \<Rightarrow>
          (case take_octets n rest of
             None \<Rightarrow> None
           | Some (bs, rest') \<Rightarrow> Some (b # bs, rest')))"

definition leading_ones :: "nat \<Rightarrow> nat" where
  "leading_ones b =
     (if b < 128 then 0 else if b < 192 then 1 else if b < 224 then 2
      else if b < 240 then 3 else if b < 248 then 4 else 5)"

definition continuation :: "nat \<Rightarrow> bool" where
  "continuation b = (128 \<le> b \<and> b < 192)"

text \<open>The code point of a well-formed UTF-8 sequence: shortest form, no surrogate.\<close>

definition utf8_code_point :: "nat list \<Rightarrow> nat option" where
  "utf8_code_point octets =
     (case octets of
        [b0, b1] \<Rightarrow>
          (let v = (b0 - 192) * 64 + (b1 - 128)
           in if continuation b1 \<and> 128 \<le> v then Some v else None)
      | [b0, b1, b2] \<Rightarrow>
          (let v = (b0 - 224) * 4096 + (b1 - 128) * 64 + (b2 - 128)
           in if continuation b1 \<and> continuation b2 \<and> 2048 \<le> v
                 \<and> \<not> (55296 \<le> v \<and> v \<le> 57343) then Some v else None)
      | [b0, b1, b2, b3] \<Rightarrow>
          (let v = (b0 - 240) * 262144 + (b1 - 128) * 4096 + (b2 - 128) * 64 + (b3 - 128)
           in if continuation b1 \<and> continuation b2 \<and> continuation b3 \<and> 65536 \<le> v
                 \<and> v \<le> 1114111 then Some v else None)
      | _ \<Rightarrow> None)"

definition UTF16EncodeCodePoint :: "nat \<Rightarrow> jsstring" where
  "UTF16EncodeCodePoint v =
     (if v < 65536 then [v]
      else [55296 + (v - 65536) div 1024, 56320 + (v - 65536) mod 1024])"

lemma take_octet_shorter:
  "take_octet s = Some (b, rest) \<Longrightarrow> length rest < length s"
  by (induction s rule: take_octet.induct) (auto split: if_splits option.splits)

lemma take_octets_not_longer:
  "take_octets n s = Some (bs, rest) \<Longrightarrow> length rest \<le> length s"
proof (induction n arbitrary: s bs rest)
  case 0
  then show ?case by simp
next
  case (Suc n)
  then show ?case
    by (fastforce split: option.splits dest: take_octet_shorter)
qed

function decodeURIComponent :: "jsstring \<Rightarrow> jsstring option" where
  "decodeURIComponent [] = Some []"
| "decodeURIComponent (c # s) =
     (if c \<noteq> 37 then map_option ((#) c) (decodeURIComponent s)
      else (case take_octet (c # s) of
              None \<Rightarrow> None
            | Some (B, rest) \<Rightarrow>
                (let n = leading_ones B
                 in if n = 0 then map_option ((#) B) (decodeURIComponent rest)
                    else if n = 1 \<or> n > 4 then None
                    else (case take_octets (n - 1) rest of
                            None \<Rightarrow> None
                          | Some (tail, rest') \<Rightarrow>
                              (case utf8_code_point (B # tail) of
                                 None \<Rightarrow> None
                               | Some V \<Rightarrow>
                                   map_option ((@) (UTF16EncodeCodePoint V))
                                     (decodeURIComponent rest'))))))"
  by pat_completeness auto
termination
proof (relation "measure length", goal_cases)
  case 1
  show ?case by simp
next
  case (2 c s)
  then show ?case by simp
next
  case (3 c s x2 B rest n)
  then show ?case
    using take_octet_shorter [of "c # s" B rest] by simp
next
  case (4 c s x2 B rest n x2a tail rest')
  then show ?case
    using take_octet_shorter [of "c # s" B rest]
      take_octets_not_longer [of "leading_ones B - 1" rest tail rest'] by simp
qed

text \<open>
  \<open>POST /suppliers\<close>: save the supplier of the request body, \<open>payload\<close>, under its
  \<open>companyName\<close>.  (The stored record's field \<open>id'\<close> below is the property \<open>id\<close>.)
\<close>

definition post_suppliers ::
  "(jsstring \<Rightarrow> jsstring option) \<Rightarrow> jsstring option \<Rightarrow> Supplier \<Rightarrow> KV
     \<Rightarrow> Supplier list Response \<times> KV" where
  "post_suppliers verify header payload kv =
     (case authenticate verify header of
        Inl (status, refusal) \<Rightarrow> (Failure status refusal, kv)
      | Inr user_id \<Rightarrow>
          if \<not> truthy (companyName payload) then (Failure 400 ''Company name is required'', kv)
          else (let existingSuppliers = get_or_empty (user_suppliers kv) user_id;
                    supplierIndex =
                      findIndex (\<lambda>s. companyName s = companyName payload) existingSuppliers;
                    saved = (if supplierIndex \<ge> 0
                             then existingSuppliers[nat supplierIndex := payload]
                             else existingSuppliers @ [payload])
                in (Success ''Supplier saved successfully'' saved,
                    kv\<lparr>user_suppliers := (user_suppliers kv)(user_id \<mapsto> saved)\<rparr>)))"

text \<open>
  The three \<open>DELETE\<close> handlers by natural key.  The supplier and client handlers pass
  the route parameter through \<open>decodeURIComponent\<close>; an exception inside the handler is
  caught by its \<open>try\<close> and answered with status 500.  The item-template handler uses the
  parameter as it is.
\<close>

definition delete_supplier ::
  "(jsstring \<Rightarrow> jsstring option) \<Rightarrow> jsstring option \<Rightarrow> jsstring \<Rightarrow> KV
     \<Rightarrow> Supplier list Response \<times> KV" where
  "delete_supplier verify header param kv =
     (case authenticate verify header of
        Inl (status, refusal) \<Rightarrow> (Failure status refusal, kv)
      | Inr user_id \<Rightarrow>
          (case decodeURIComponent param of
             None \<Rightarrow> (Failure 500 ''Error deleting supplier'', kv)
           | Some key \<Rightarrow>
               (let existingSuppliers = get_or_empty (user_suppliers kv) user_id;
                    filteredSuppliers = filter (\<lambda>s. companyName s \<noteq> key) existingSuppliers
                in (Success ''Supplier deleted successfully'' filteredSuppliers,
                    kv\<lparr>user_suppliers := (user_suppliers kv)(user_id \<mapsto> filteredSuppliers)\<rparr>))))"

definition delete_client ::
  "(jsstring \<Rightarrow> jsstring option) \<Rightarrow> jsstring option \<Rightarrow> jsstring \<Rightarrow> KV
     \<Rightarrow> Client list Response \<times> KV" where
  "delete_client verify header param kv =
     (case authenticate verify header of
        Inl (status, refusal) \<Rightarrow> (Failure status refusal, kv)
      | Inr user_id \<Rightarrow>
          (case decodeURIComponent param of
             None \<Rightarrow> (Failure 500 ''Error deleting client'', kv)
           | Some key \<Rightarrow>
               (let existingClients = get_or_empty (user_clients kv) user_id;
                    filteredClients = filter (\<lambda>c. Client.name c \<noteq> key) existingClients
                in (Success ''Client deleted successfully'' filteredClients,
                    kv\<lparr>user_clients := (user_clients kv)(user_id \<mapsto> filteredClients)\<rparr>))))"

definition delete_item_template ::
  "(jsstring \<Rightarrow> jsstring option) \<Rightarrow> jsstring option \<Rightarrow> jsstring \<Rightarrow> KV
     \<Rightarrow> Item list Response \<times> KV" where
  "delete_item_template verify header templateName kv =
     (case authenticate verify header of
        Inl (status, refusal) \<Rightarrow> (Failure status refusal, kv)
      | Inr user_id \<Rightarrow>
          (let existingTemplates = get_or_empty (user_item_templates kv) user_id;
               filteredTemplates = filter (\<lambda>t. Item.name t \<noteq> templateName) existingTemplates
           in (Success ''Item template deleted successfully'' filteredTemplates,
               kv\<lparr>user_item_templates :=
                    (user_item_templates kv)(user_id \<mapsto> filteredTemplates)\<rparr>)))"

text \<open>
  \<open>POST /estimates\<close>.  The handler reads the clock three times: \<open>Date.now()\<close> for the id
  (joined with a random suffix; the id is the parameter \<open>new_id\<close>), then \<open>new Date()\<close> for
  \<open>createdAt\<close> and \<open>new Date()\<close> again for \<open>updatedAt\<close>.  The two readings are the
  parameters \<open>created_now\<close> and \<open>updated_now\<close>, in milliseconds; the ISO strings the
  handler stores are ordered as the readings are.
\<close>

definition post_estimates ::
  "(jsstring \<Rightarrow> jsstring option) \<Rightarrow> jsstring option \<Rightarrow> Item EstimateData \<Rightarrow> jsstring
     \<Rightarrow> nat \<Rightarrow> nat \<Rightarrow> KV \<Rightarrow> SavedEstimate Response \<times> KV" where
  "post_estimates verify header estimateData new_id created_now updated_now kv =
     (case authenticate verify header of
        Inl (status, refusal) \<Rightarrow> (Failure status refusal, kv)
      | Inr user_id \<Rightarrow>
          if \<not> truthy (estimateNumber estimateData) \<or> \<not> truthy (clientName estimateData)
          then (Failure 400 ''Estimate number and client name are required'', kv)
          else (let saved_estimate = \<lparr>body = estimateData, id' = new_id, createdAt = created_now,
                                updatedAt = updated_now\<rparr>;
                    existingEstimates = get_or_empty (user_estimates kv) user_id;
                    saved = saved_estimate # existingEstimates
                in (Success ''Estimate saved successfully'' saved_estimate,
                    kv\<lparr>user_estimates := (user_estimates kv)(user_id \<mapsto> saved)\<rparr>)))"

text \<open>\<open>PUT /estimates/:id\<close>, with the reading \<open>now\<close> of the clock for \<open>updatedAt\<close>.\<close>

definition put_estimates ::
  "(jsstring \<Rightarrow> jsstring option) \<Rightarrow> jsstring option \<Rightarrow> jsstring \<Rightarrow> Item EstimateData
     \<Rightarrow> nat \<Rightarrow> KV \<Rightarrow> SavedEstimate Response \<times> KV" where
  "put_estimates verify header estimateId estimateData now kv =
     (case authenticate verify header of
        Inl (status, refusal) \<Rightarrow> (Failure status refusal, kv)
      | Inr user_id \<Rightarrow>
          (let existingEstimates = get_or_empty (user_estimates kv) user_id;
               estimateIndex = findIndex (\<lambda>e. id' e = estimateId) existingEstimates
           in if estimateIndex = - 1 then (Failure 404 ''Estimate not found'', kv)
              else (let updated = \<lparr>body = estimateData, id' = estimateId,
                                     createdAt = createdAt (existingEstimates ! nat estimateIndex),
                                     updatedAt = now\<rparr>;
                        saved = existingEstimates[nat estimateIndex := updated]
                    in (Success ''Estimate updated successfully'' updated,
                        kv\<lparr>user_estimates := (user_estimates kv)(user_id \<mapsto> saved)\<rparr>))))"


section \<open>Vocabulary and sample inputs for the properties\<close>

text \<open>
  Vocabulary for the claims about the store.  \<open>updateClient_calls\<close> runs a sequence of
  \<open>updateClient\<close> calls; \<open>last_defined f ps\<close> is the value of the property \<open>f\<close> in
  the last patch of \<open>ps\<close> that supplies it, if there is one.
\<close>

definition updateClient_calls :: "ClientPartial list \<Rightarrow> 'i EstimateData \<Rightarrow> 'i EstimateData" where
  "updateClient_calls ps e = foldl (\<lambda>prev p. updateClient p prev) e ps"

definition last_defined :: "('p \<Rightarrow> 'v option) \<Rightarrow> 'p list \<Rightarrow> 'v option" where
  "last_defined f ps =
     (let qs = filter (\<lambda>p. f p \<noteq> None) ps in if qs = [] then None else f (last qs))"

text \<open>
  The value of a date input: digits and hyphens.  \<open>estimate_number_for d n\<close> is the
  number the generation rule gives date \<open>d\<close> at running count \<open>n\<close>: the date key, a
  hyphen, and the count padded with zeros to three digits.
\<close>

definition date_string :: "jsstring \<Rightarrow> bool" where
  "date_string d = list_all (\<lambda>c. c = 45 \<or> (48 \<le> c \<and> c \<le> 57)) d"

definition estimate_number_for :: "jsstring \<Rightarrow> nat \<Rightarrow> jsstring" where
  "estimate_number_for d n = dateKey_of d @ ascii ''-'' @ padStart 3 48 (String_of_nat n)"

text \<open>
  What a user's keys hold, as the handlers read them, and the list an upsert by natural
  key leaves: the first record with the key of \<open>p\<close> replaced by \<open>p\<close>, or \<open>p\<close> appended.
\<close>

definition stored_suppliers :: "KV \<Rightarrow> jsstring \<Rightarrow> Supplier list" where
  "stored_suppliers kv user_id = get_or_empty (user_suppliers kv) user_id"

definition stored_estimates :: "KV \<Rightarrow> jsstring \<Rightarrow> SavedEstimate list" where
  "stored_estimates kv user_id = get_or_empty (user_estimates kv) user_id"

definition upsert_by :: "('a \<Rightarrow> 'k) \<Rightarrow> 'a \<Rightarrow> 'a list \<Rightarrow> 'a list" where
  "upsert_by key p xs =
     (let i = findIndex (\<lambda>s. key s = key p) xs in if i \<ge> 0 then xs[nat i := p] else xs @ [p])"

text \<open>
  The stores the service can hold, as far as the supplier collections go.  The keys
  \<open>user_suppliers_\<close> are written by \<open>POST /suppliers\<close> and \<open>DELETE /suppliers\<close> only: a store
  is reachable when no supplier collection has been written, or when it results from a
  reachable store by one of these two handlers (with any header, payload or parameter), or
  by a handler that leaves the supplier collections as they are.
\<close>

inductive reachable_suppliers :: "(jsstring \<Rightarrow> jsstring option) \<Rightarrow> KV \<Rightarrow> bool"
  for verify :: "jsstring \<Rightarrow> jsstring option" where
    initial: "user_suppliers kv = Map.empty \<Longrightarrow> reachable_suppliers verify kv"
  | post: "reachable_suppliers verify kv
           \<Longrightarrow> reachable_suppliers verify (snd (post_suppliers verify header payload kv))"
  | delete: "reachable_suppliers verify kv
           \<Longrightarrow> reachable_suppliers verify (snd (delete_supplier verify header param kv))"
  | other: "reachable_suppliers verify kv \<Longrightarrow> user_suppliers kv' = user_suppliers kv
           \<Longrightarrow> reachable_suppliers verify kv'"

text \<open>Concrete inputs used to instantiate the theorems below.\<close>

definition sample_storage :: Storage where
  "sample_storage = \<lparr>window_defined = True, estimateNumbers = Map.empty, setItem_ok = True\<rparr>"

definition sample_item :: Item where
  "sample_item =
     \<lparr>Item.name = ascii ''desk'', Item.quantity = 2, Item.price = 15, Item.spec = ascii ''EA'',
      Item.note = []\<rparr>"

definition sample_document :: "Item EstimateData" where
  "sample_document =
     (fst (createInitialEstimate (ascii ''2026-01-05'') sample_storage))\<lparr>items := [sample_item]\<rparr>"

definition sample_array_document :: "Item option EstimateData" where
  "sample_array_document =
     (fst (createInitialEstimate (ascii ''2026-01-05'') sample_storage))
       \<lparr>items := [Some sample_item]\<rparr>"

definition item_1100 :: Item where
  "item_1100 =
     \<lparr>Item.name = ascii ''chair'', Item.quantity = 1, Item.price = 1100, Item.spec = ascii ''EA'',
      Item.note = []\<rparr>"

definition sample_verify :: "jsstring \<Rightarrow> jsstring option" where
  "sample_verify token = (if token = ascii ''token-1'' then Some (ascii ''user-1'') else None)"

definition sample_header :: "jsstring option" where
  "sample_header = Some (ascii ''Bearer token-1'')"

definition empty_KV :: KV where
  "empty_KV =
     \<lparr>user_suppliers = Map.empty, user_clients = Map.empty, user_item_templates = Map.empty,
      user_estimates = Map.empty\<rparr>"

definition sample_estimate :: "Item EstimateData" where
  "sample_estimate = sample_document\<lparr>clientName := ascii ''Kim''\<rparr>"


section \<open>Properties of the state store\<close>

lemma last_defined_Nil: "last_defined f [] = None"
  by (simp add: last_defined_def)

lemma last_defined_snoc:
  "last_defined f (ps @ [p]) = (case f p of None \<Rightarrow> last_defined f ps | Some v \<Rightarrow> Some v)"
  by (cases "f p") (auto simp: last_defined_def Let_def)

lemma updateClient_calls_snoc:
  "updateClient_calls (ps @ [p]) e = updateClient p (updateClient_calls ps e)"
  by (simp add: updateClient_calls_def)

text \<open>
  C4.  After any finite sequence of \<open>updateClient\<close> calls on any document, each legacy
  mirror field \<open>clientName\<close>, \<open>clientPhone\<close>, \<open>clientEmail\<close> holds the value most recently
  supplied for \<open>name\<close>, \<open>phone\<close>, \<open>email\<close>, and keeps the value it had at the start when
  no patch supplied one.  Every prefix of a sequence is a sequence, so this holds after
  each call.
\<close>

theorem updateClient_mirrors_latest:
  "clientName (updateClient_calls ps e)
     = nullish (last_defined ClientPartial.name ps) (clientName e) \<and>
   clientPhone (updateClient_calls ps e)
     = nullish (last_defined ClientPartial.phone ps) (clientPhone e) \<and>
   clientEmail (updateClient_calls ps e)
     = nullish (last_defined ClientPartial.email ps) (clientEmail e)"
proof (induction ps rule: rev_induct)
  case Nil
  show ?case
    by (simp add: updateClient_calls_def last_defined_Nil nullish_def)
next
  case (snoc p ps)
  then show ?case
    by (simp add: updateClient_calls_snoc last_defined_snoc updateClient_def nullish_def
        split: option.splits)
qed

lemma filter_index_keeps_all:
  "(\<And>i. i < length xs \<Longrightarrow> p (k + i))
   \<Longrightarrow> map snd (filter (\<lambda>(i, x). p i) (enumerate k xs)) = xs"
proof (induction xs arbitrary: k)
  case Nil
  then show ?case by simp
next
  case (Cons x xs)
  have "p k"
    using Cons.prems [of 0] by simp
  moreover have "map snd (filter (\<lambda>(i, x). p i) (enumerate (Suc k) xs)) = xs"
    using Cons.prems [of "Suc _"] by (intro Cons.IH) simp
  ultimately show ?case by simp
qed

lemma map_index_changes_nothing:
  "(\<And>i. i < length xs \<Longrightarrow> f (xs ! i) (k + i) = xs ! i)
   \<Longrightarrow> map (\<lambda>(i, x). f x i) (enumerate k xs) = xs"
proof (induction xs arbitrary: k)
  case Nil
  then show ?case by simp
next
  case (Cons x xs)
  have "f x k = x"
    using Cons.prems [of 0] by simp
  moreover have "map (\<lambda>(i, x). f x i) (enumerate (Suc k) xs) = xs"
    using Cons.prems [of "Suc _"] by (intro Cons.IH) simp
  ultimately show ?case by simp
qed

text \<open>
  C9.  With an index outside \<open>0 .. length - 1\<close>, \<open>removeItem\<close> and \<open>updateItem\<close> return
  the document as it was, and \<open>moveItem\<close> with equal positions returns the document as
  it was.  The three operations are total functions of their integer arguments: the
  array methods they are built from (\<open>filter\<close>, \<open>map\<close>, \<open>splice\<close>, the spreads) have no
  failing case, so the model has no error result to return.
\<close>

theorem item_operations_out_of_range_noop:
  assumes "index < 0 \<or> int (length (items e)) \<le> index"
  shows "removeItem index e = e \<and> updateItem index partial e = e \<and> moveItem k k m = m"
proof (intro conjI)
  have "filter_index (\<lambda>i. int i \<noteq> index) (items e) = items e"
    unfolding filter_index_def using assms by (intro filter_index_keeps_all) auto
  then show "removeItem index e = e"
    by (simp add: removeItem_def)
next
  have "map_index (\<lambda>existing i. if int i = index then spread_Item existing partial
                                 else existing) (items e) = items e"
    unfolding map_index_def using assms by (intro map_index_changes_nothing) auto
  then show "updateItem index partial e = e"
    by (simp add: updateItem_def)
next
  show "moveItem k k m = m"
    by (simp add: moveItem_def)
qed

theorem item_operations_out_of_range_noop_witness:
  "int (length (items sample_document)) \<le> 5 \<and>
   removeItem 5 sample_document = sample_document \<and>
   updateItem 5 \<lparr>ItemPartial.name = None, ItemPartial.quantity = Some 7,
                  ItemPartial.price = None, ItemPartial.spec = None,
                  ItemPartial.note = None\<rparr> sample_document = sample_document \<and>
   moveItem 0 0 sample_array_document = sample_array_document"
proof -
  have h: "(5::int) < 0 \<or> int (length (items sample_document)) \<le> 5"
    by (simp add: sample_document_def)
  show ?thesis
    using h item_operations_out_of_range_noop [OF h] by simp
qed

text \<open>
  Two runs of \<open>moveItem\<close> on an array of three entries: a move of the first entry to the
  end, and a move from a position past the end, which removes nothing and inserts
  \<open>undefined\<close> at the target.
\<close>

lemma moveItem_examples:
  "items (moveItem 0 2 (m\<lparr>items := [Some a, Some b, Some c]\<rparr>)) = [Some b, Some c, Some a]"
  "items (moveItem 5 1 (m\<lparr>items := [Some a, Some b, Some c]\<rparr>))
     = [Some a, None, Some b, Some c]"
  by (simp_all add: moveItem_def splice_def splice_start_def)

text \<open>
  C10.  The document that \<open>resetEstimate\<close> installs is not dirty: \<open>hasDirtyState\<close> is
  false in the provider state it returns, whatever the date, the previous state and the
  storage environment.
\<close>

theorem reset_is_not_dirty:
  "hasDirtyState (fst (resetEstimate today st env)) = False"
  by (simp add: hasDirtyState_def resetEstimate_def createInitialEstimate_def
      hasMeaningfulEstimateData_def split_def Let_def truthy_def EMPTY_CLIENT_def)

lemma replicate_numeral: "replicate (numeral k) x = x # replicate (pred_numeral k) x"
  by (simp add: numeral_eq_Suc)

lemma String_of_nat_digit: "n < 10 \<Longrightarrow> String_of_nat n = [48 + n]"
  by (simp add: String_of_nat.simps [of n])

lemma generateEstimateNumber_number:
  "fst (generateEstimateNumber d env)
     = estimate_number_for d (count_or_0 (store_read env) (dateKey_of d) + 1)"
  by (simp add: generateEstimateNumber_def estimate_number_for_def Let_def)

lemma generateEstimateNumber_writes:
  assumes "window_defined env" "setItem_ok env"
  shows "snd (generateEstimateNumber d env)
           = env\<lparr>estimateNumbers := (estimateNumbers env)
                  (dateKey_of d \<mapsto> count_or_0 (estimateNumbers env) (dateKey_of d) + 1)\<rparr>"
  using assms
  by (simp add: generateEstimateNumber_def store_read_def store_write_def Let_def)

text \<open>
  C5, as amended.  For a date string \<open>d\<close>, \<open>updateField('estimateDate', d)\<close> stores
  \<open>d\<close> and gives the document the number of the generation rule at one more than the
  count read from the store.  (A date string consists of digits and hyphens, so its key
  names no inherited property of the parsed object and the lookup reads the record's own
  entry, as the map does.)  When \<open>window.localStorage\<close> is there and its \<open>setItem\<close>
  succeeds, the entry of the date key is incremented by exactly one and no other entry
  changes, so a second call for the same date yields the next count.
\<close>

theorem estimateDate_regenerates_number:
  assumes "date_string d"
  shows "let c = count_or_0 (store_read env) (dateKey_of d);
             (doc, env1) = updateField (F_estimateDate d) prev env;
             (doc2, env2) = updateField (F_estimateDate d) doc env1
         in estimateDate doc = d \<and>
            estimateNumber doc = estimate_number_for d (c + 1) \<and>
            (window_defined env \<and> setItem_ok env \<longrightarrow>
               estimateNumbers env1 = (estimateNumbers env)(dateKey_of d \<mapsto> c + 1) \<and>
               count_or_0 (store_read env1) (dateKey_of d) = c + 1 \<and>
               estimateNumber doc2 = estimate_number_for d (c + 2) \<and>
               count_or_0 (store_read env2) (dateKey_of d) = c + 2)"
proof -
  have number: "estimateNumber (fst (updateField (F_estimateDate d) prev env))
                  = estimate_number_for d (count_or_0 (store_read env) (dateKey_of d) + 1)"
    using generateEstimateNumber_number [of d env] by (simp add: split_def Let_def)
  have date: "estimateDate (fst (updateField (F_estimateDate d) prev env)) = d"
    by (simp add: split_def Let_def)
  have stored: "window_defined env \<and> setItem_ok env \<longrightarrow>
      (let env1 = snd (updateField (F_estimateDate d) prev env);
           doc = fst (updateField (F_estimateDate d) prev env);
           c = count_or_0 (store_read env) (dateKey_of d)
       in estimateNumbers env1 = (estimateNumbers env)(dateKey_of d \<mapsto> c + 1) \<and>
          count_or_0 (store_read env1) (dateKey_of d) = c + 1 \<and>
          estimateNumber (fst (updateField (F_estimateDate d) doc env1))
            = estimate_number_for d (c + 2) \<and>
          count_or_0 (store_read (snd (updateField (F_estimateDate d) doc env1))) (dateKey_of d)
            = c + 2)"
    by (simp add: split_def Let_def generateEstimateNumber_number generateEstimateNumber_writes
        store_read_def count_or_0_def)
  show ?thesis
    using number date stored by (simp add: split_def Let_def)
qed

theorem estimateDate_regenerates_number_witness:
  "date_string (ascii ''2026-01-05'') \<and>
   window_defined sample_storage \<and> setItem_ok sample_storage \<and>
   (let (doc, env1) = updateField (F_estimateDate (ascii ''2026-01-05'')) sample_document
                        sample_storage;
        (doc2, env2) = updateField (F_estimateDate (ascii ''2026-01-05'')) doc env1
    in estimateNumber doc = ascii ''20260105-001'' \<and>
       estimateNumbers env1 (ascii ''20260105'') = Some 1 \<and>
       estimateNumber doc2 = ascii ''20260105-002'')"
proof -
  have h: "date_string (ascii ''2026-01-05'')"
    by (simp add: date_string_def ascii_def)
  have s: "window_defined sample_storage \<and> setItem_ok sample_storage"
    by (simp add: sample_storage_def)
  show ?thesis
    using h s estimateDate_regenerates_number [OF h, of sample_storage sample_document]
    by (simp add: Let_def split_def estimate_number_for_def count_or_0_def store_read_def
        sample_storage_def dateKey_of_def ascii_def padStart_def replicate_numeral
        String_of_nat_digit)
qed

text \<open>
  The claim as stated fails when the write to \<open>localStorage\<close> fails (the handler catches
  and logs the exception): with the count 7 stored for the date, two calls in a row both
  yield \<open>20260105-008\<close> and the entry stays 7.
\<close>

theorem failed_write_repeats_number:
  "(let env = \<lparr>window_defined = True, estimateNumbers = [ascii ''20260105'' \<mapsto> 7],
               setItem_ok = False\<rparr>;
        d = ascii ''2026-01-05'';
        (doc, env1) = updateField (F_estimateDate d) sample_document env;
        (doc2, env2) = updateField (F_estimateDate d) doc env1
    in estimateNumber doc = ascii ''20260105-008'' \<and>
       estimateNumber doc2 = ascii ''20260105-008'' \<and>
       estimateNumbers env1 (dateKey_of d) = Some 7)"
  by (simp add: generateEstimateNumber_def store_read_def store_write_def Let_def
      dateKey_of_def ascii_def count_or_0_def padStart_def replicate_numeral
      String_of_nat_digit)


section \<open>Properties of the totals and the previews\<close>

lemma bitlen_numeral:
  "bitlen 0 = 0" "bitlen (numeral k) = Suc (bitlen (numeral k div 2))"
  by (simp_all add: bitlen.simps [of 0] bitlen.simps [of "numeral k"])

lemmas double_eval =
  bitlen_numeral div_1_1_def mul_0_1_def fl_def scale53_def round_half_even_def
  Math_floor_def Let_def







lemma round_half_even_tie:
  assumes "2 * (N mod D) = D"
  shows "even (round_half_even N D)"
  using assms by (simp add: round_half_even_def Let_def)











text \<open>
  The quotient of 1100 by the double 1.1, which is larger than 1.1: it lies below the
  midpoint of 1000 and the double before it, \<open>1000 - 2^-43\<close>, and above that double, so
  the division rounds down to it.
\<close>

lemma quotient_1100:
  "(11 / 10 :: rat) < 4953959590107546 / 2 ^ 52"
  "(1100 :: rat) / (4953959590107546 / 2 ^ 52) < 1000 - 1 / 2 ^ 44"
  "1000 - 1 / 2 ^ 43 < (1100 :: rat) / (4953959590107546 / 2 ^ 52)"
  "(8796093022207999 :: rat) / 2 ^ 43 = 1000 - 1 / 2 ^ 43"
  by (simp_all add: field_simps)

lemma division_1100: "div_1_1 1100 = (8796093022207999, - 43)"
  by (simp add: double_eval)

lemma unit_price_1100: "Math_floor (div_1_1 1100) = 999"
  by (simp add: double_eval)

lemma tax_of_999: "Math_floor (mul_0_1 999) = 99"
  by (simp add: double_eval)



lemma foldl_add_sum_list:
  "foldl (\<lambda>s x. s + f x) a xs = (a :: nat) + sum_list (map f xs)"
  by (induction xs arbitrary: a) simp_all

lemma calculateTotals_is_useTotals:
  "calculateTotals estimateData = useTotals (items estimateData) (taxOption estimateData)"
  by (simp add: calculateTotals_def useTotals_def)

lemma useTotals_structure:
  "subtotal (useTotals its Excluding)
     = sum_list (map (\<lambda>i. Item.price i * Item.quantity i) its) \<and>
   subtotal (useTotals its Including)
     = sum_list (map (\<lambda>i. Math_floor (div_1_1 (Item.price i)) * Item.quantity i) its) \<and>
   taxAmount (useTotals its opt) = Math_floor (mul_0_1 (subtotal (useTotals its opt))) \<and>
   total (useTotals its opt) = subtotal (useTotals its opt) + taxAmount (useTotals its opt)"
  by (simp add: useTotals_def Let_def foldl_add_sum_list)

text \<open>
  C1.  One item of quantity 1 and price 1100, prices including tax.  The double nearest
  to 1.1 lies above 1.1, and \<open>1100 / 1.1\<close> evaluates to the double just below 1000, so
  both totals functions return subtotal 999, tax 99 and total 1098, where the real
  quotient is 1000 and the claim gives subtotal 1000.
\<close>

theorem totals_including_1100:
  "useTotals [item_1100] Including = \<lparr>subtotal = 999, taxAmount = 99, total = 1098\<rparr> \<and>
   calculateTotals (sample_document\<lparr>items := [item_1100], taxOption := Including\<rparr>)
     = \<lparr>subtotal = 999, taxAmount = 99, total = 1098\<rparr> \<and>
   \<lfloor>(1100 :: rat) / (11 / 10)\<rfloor> * 1 = 1000"
  by (simp add: useTotals_def calculateTotals_def item_1100_def unit_price_1100 tax_of_999)





section \<open>Properties of the currency words\<close>


lemma partStr_formatKoreanCurrency_eq:
  "partStr_formatKoreanCurrency part = partStr_numberToKorean part"
  by (simp add: partStr_formatKoreanCurrency_def partStr_numberToKorean_def Let_def)

lemma loop_formatKoreanCurrency_eq:
  "loop_formatKoreanCurrency n u r = loop_numberToKorean n u r"
proof (induction n u r rule: loop_numberToKorean.induct)
  case (1 num unitIndex result)
  show ?case
  proof (cases "num > 0")
    case True
    then show ?thesis
      using 1 [OF True refl refl]
      by (subst loop_formatKoreanCurrency.simps, subst loop_numberToKorean.simps)
         (cases "0 < num mod 10000"; simp add: Let_def partStr_formatKoreanCurrency_eq)
  next
    case False
    then show ?thesis
      by (subst loop_formatKoreanCurrency.simps, subst loop_numberToKorean.simps) simp
  qed
qed

lemma digits_agree:
  assumes "0 < d" "d < 10"
  shows "at_index digits10_blank0 d = at_index digits10 d"
proof -
  have "d \<in> {1, 2, 3, 4, 5, 6, 7, 8, 9}"
    using assms by auto
  then show ?thesis
    by (auto simp: at_index_def digits10_blank0_def digits10_def)
qed

lemma digit_word_eq:
  assumes "d < 10"
  shows "(if 0 < d then (if d = 1 then [] else at_index digits10_blank0 d) @ w else [])
           = (if 0 < d then (if d = 1 then w else at_index digits10 d @ w) else [])"
proof (cases "d = 0 \<or> d = 1")
  case True
  then show ?thesis by auto
next
  case False
  then show ?thesis
    using digits_agree [of d] assms by simp
qed

lemma tens_word_eq:
  assumes "d < 10"
  shows "(if 0 < d then (if d = 1 then w else at_index digits10_blank0 d @ w) else [])
           = (if 0 < d then (if d = 1 then w else at_index digits10 d @ w) else [])"
proof (cases "d = 0 \<or> d = 1")
  case True
  then show ?thesis by auto
next
  case False
  then show ?thesis
    using digits_agree [of d] assms by simp
qed

lemma ones_word_eq:
  assumes "d < 10"
  shows "(if 0 < d then at_index digits10_blank0 d else [])
           = (if 0 < d then at_index digits10 d else [])"
  using digits_agree [of d] assms by (cases "d = 0") simp_all

lemma partStr_numberToKorean3_eq:
  assumes "part < 10000"
  shows "partStr_numberToKorean3 part = partStr_numberToKorean part"
proof -
  have a: "part div 1000 < 10"
    using assms by simp
  have b: "(part mod 1000) div 100 < 10"
    by (simp add: less_mult_imp_div_less)
  have c: "(part mod 100) div 10 < 10"
    by (simp add: less_mult_imp_div_less)
  have d: "part mod 10 < 10"
    by simp
  show ?thesis
    unfolding partStr_numberToKorean3_def partStr_numberToKorean_def Let_def
    by (simp only: digit_word_eq [OF a] digit_word_eq [OF b] tens_word_eq [OF c]
        ones_word_eq [OF d])
qed

lemma units_agree:
  assumes "u < 4"
  shows "at_index units4 u = at_index units5 u"
proof -
  have "u \<in> {0, 1, 2, 3}"
    using assms by auto
  then show ?thesis
    by (auto simp: at_index_def units4_def units5_def)
qed

lemma loop_numberToKorean3_eq:
  "n < 10000 ^ k \<Longrightarrow> u + k \<le> 4 \<Longrightarrow> loop_numberToKorean3 n u r = loop_numberToKorean n u r"
proof (induction n u r arbitrary: k rule: loop_numberToKorean.induct)
  case (1 num unitIndex result)
  show ?case
  proof (cases "num > 0")
    case True
    then obtain j where k: "k = Suc j"
      using "1.prems"(1) by (cases k) auto
    have d: "num div 10000 < 10000 ^ j"
      using "1.prems"(1) k by (simp add: less_mult_imp_div_less mult.commute)
    have u: "unitIndex < 4" "unitIndex + 1 + j \<le> 4"
      using "1.prems"(2) k by auto
    show ?thesis
      using "1.IH" [OF True refl refl d u(2)] True
      by (subst loop_numberToKorean3.simps, subst loop_numberToKorean.simps)
         (cases "0 < num mod 10000"; simp add: Let_def partStr_numberToKorean3_eq units_agree u(1))
  next
    case False
    then show ?thesis
      by (subst loop_numberToKorean3.simps, subst loop_numberToKorean.simps) simp
  qed
qed

text \<open>
  C3, as amended.  \<open>formatKoreanCurrency\<close> of \<open>EstimatePreview_New\<close> and \<open>numberToKorean\<close>
  of \<open>EstimatePreview\<close> return the same words for every amount, and \<open>numberToKorean\<close> of
  the third preview returns the same words for every amount below \<open>10^16\<close>, where its
  table of units ends: all three leave out the digit word before the words for thousand,
  hundred and ten when the digit is 1.
\<close>

theorem korean_formatters_agree:
  "formatKoreanCurrency n = numberToKorean n \<and>
   (n < 10 ^ 16 \<longrightarrow> numberToKorean3 n = numberToKorean n)"
  using loop_numberToKorean3_eq [of n 4 0 "[]"]
  by (simp add: formatKoreanCurrency_def numberToKorean3_def numberToKorean_def
      loop_formatKoreanCurrency_eq)

lemmas korean_eval =
  numberToKorean_def formatKoreanCurrency_def numberToKorean3_def
  loop_numberToKorean.simps loop_formatKoreanCurrency.simps loop_numberToKorean3.simps
  partStr_numberToKorean_def partStr_formatKoreanCurrency_def partStr_numberToKorean3_def
  at_index_def units5_def units4_def digits10_def digits10_blank0_def
  cheon_def baek_def sip_def wonjeong_def Let_def

theorem korean_formatters_agree_witness:
  "(21001000 :: nat) < 10 ^ 16 \<and>
   numberToKorean 21001000 = [51060, 52380, 48177, 47564, 52380, 50896, 51221] \<and>
   formatKoreanCurrency 21001000 = [51060, 52380, 48177, 47564, 52380, 50896, 51221] \<and>
   numberToKorean3 21001000 = [51060, 52380, 48177, 47564, 52380, 50896, 51221]"
proof -
  have v: "numberToKorean 21001000 = [51060, 52380, 48177, 47564, 52380, 50896, 51221]"
    by (simp add: korean_eval)
  show ?thesis
    using v korean_formatters_agree [of 21001000] by simp
qed

text \<open>
  The claim as stated fails: no amount separates the implementations at the thousands
  digit.  The renderings of a group of four digits coincide in all three, the first two
  formatters are equal as functions, and each renders 1000 as the word for thousand
  followed by the suffix, without the word for one.
\<close>

theorem thousands_elided_everywhere:
  "(\<forall>n. formatKoreanCurrency n = numberToKorean n) \<and>
   (\<forall>n. partStr_formatKoreanCurrency (n mod 10000) = partStr_numberToKorean (n mod 10000)) \<and>
   (\<forall>n. partStr_numberToKorean3 (n mod 10000) = partStr_numberToKorean (n mod 10000)) \<and>
   numberToKorean 1000 = [52380, 50896, 51221] \<and>
   formatKoreanCurrency 1000 = [52380, 50896, 51221] \<and>
   numberToKorean3 1000 = [52380, 50896, 51221]"
proof -
  have a: "\<forall>n. formatKoreanCurrency n = numberToKorean n"
    by (simp add: formatKoreanCurrency_def numberToKorean_def loop_formatKoreanCurrency_eq)
  have b: "\<forall>n. partStr_numberToKorean3 (n mod 10000) = partStr_numberToKorean (n mod 10000)"
    by (simp add: partStr_numberToKorean3_eq)
  have c: "numberToKorean 1000 = [52380, 50896, 51221]"
    by (simp add: korean_eval)
  have d: "numberToKorean3 1000 = [52380, 50896, 51221]"
    by (simp add: korean_eval)
  show ?thesis
    using a b c d by (simp add: partStr_formatKoreanCurrency_eq)
qed

lemma numberToKorean3_runs_out_of_units:
  "numberToKorean3 (10 ^ 16) = [51068] @ ascii ''undefined'' @ [50896, 51221] \<and>
   numberToKorean (10 ^ 16) = [51068, 44221, 50896, 51221]"
  by (simp add: korean_eval ascii_def)


section \<open>Properties of the record service\<close>

lemma findIndex_ge: "- 1 \<le> findIndex p xs"
  by (induction xs) (auto simp: Let_def)

lemma findIndex_negative: "findIndex p xs < 0 \<longleftrightarrow> (\<forall>x \<in> set xs. \<not> p x)"
  using findIndex_ge [of p] by (induction xs) (auto simp: Let_def)

lemma findIndex_minus_1: "findIndex p xs = - 1 \<longleftrightarrow> (\<forall>x \<in> set xs. \<not> p x)"
  using findIndex_negative [of p xs] findIndex_ge [of p xs] by auto

lemma findIndex_first:
  "0 \<le> findIndex p xs \<Longrightarrow>
     nat (findIndex p xs) < length xs \<and> p (xs ! nat (findIndex p xs)) \<and>
     (\<forall>j < nat (findIndex p xs). \<not> p (xs ! j))"
proof (induction xs)
  case Nil
  then show ?case by simp
next
  case (Cons x xs)
  show ?case
  proof (cases "p x")
    case True
    then show ?thesis by simp
  next
    case False
    with Cons.prems have nn: "0 \<le> findIndex p xs"
      by (auto simp: Let_def split: if_splits)
    then have eq: "findIndex p (x # xs) = findIndex p xs + 1"
      using False by (simp add: Let_def)
    have n: "nat (findIndex p xs + 1) = Suc (nat (findIndex p xs))"
      using nn by simp
    show ?thesis
      using Cons.IH [OF nn] False unfolding eq n
      by (auto simp: less_Suc_eq_0_disj)
  qed
qed

lemma upsert_by_present: "0 \<le> findIndex (\<lambda>s. key s = key p) (upsert_by key p xs)"
proof (cases "0 \<le> findIndex (\<lambda>s. key s = key p) xs")
  case True
  have "p \<in> set (xs[nat (findIndex (\<lambda>s. key s = key p) xs) := p])"
    using findIndex_first [OF True] by (simp add: set_update_memI)
  then show ?thesis
    using findIndex_negative [of "\<lambda>s. key s = key p" "upsert_by key p xs"] True
    by (auto simp: upsert_by_def Let_def)
next
  case False
  then show ?thesis
    using findIndex_negative [of "\<lambda>s. key s = key p" "upsert_by key p xs"]
    by (auto simp: upsert_by_def Let_def)
qed

lemma upsert_by_keys:
  "map key (upsert_by key p xs)
     = (if 0 \<le> findIndex (\<lambda>s. key s = key p) xs then map key xs else map key xs @ [key p])"
proof (cases "0 \<le> findIndex (\<lambda>s. key s = key p) xs")
  case True
  show ?thesis
    using findIndex_first [OF True] True
    by (simp add: upsert_by_def Let_def map_update list_update_same_conv)
next
  case False
  then show ?thesis
    by (simp add: upsert_by_def Let_def)
qed

lemma upsert_by_distinct:
  "distinct (map key xs) \<Longrightarrow> distinct (map key (upsert_by key p xs))"
  using findIndex_negative [of "\<lambda>s. key s = key p" xs]
  by (auto simp: upsert_by_keys)

lemma filter_unique_key:
  "distinct (map key xs) \<Longrightarrow> i < length xs \<Longrightarrow> key (xs ! i) = k
   \<Longrightarrow> filter (\<lambda>s. key s = k) xs = [xs ! i]"
proof (induction xs arbitrary: i)
  case Nil
  then show ?case by simp
next
  case (Cons x xs)
  show ?case
  proof (cases i)
    case 0
    have "key x \<notin> key ` set xs" "k = key x"
      using Cons.prems 0 by simp_all
    then have "filter (\<lambda>s. key s = k) xs = []"
      by (metis (mono_tags, lifting) filter_False imageI)
    then show ?thesis
      using Cons.prems 0 by simp
  next
    case (Suc j)
    have "key x \<noteq> k"
      using Cons.prems Suc by auto
    then show ?thesis
      using Cons.IH [of j] Cons.prems Suc by simp
  qed
qed

lemma upsert_by_twice_unique:
  assumes "distinct (map key xs)" "key q = key p"
  shows "filter (\<lambda>s. key s = key p) (upsert_by key q (upsert_by key p xs)) = [q]"
proof -
  let ?ys = "upsert_by key p xs"
  let ?i = "findIndex (\<lambda>s. key s = key q) ?ys"
  have pres: "0 \<le> ?i"
    using upsert_by_present [of key p xs] assms(2) by simp
  have zs: "upsert_by key q ?ys = ?ys[nat ?i := q]"
    using pres by (simp add: upsert_by_def Let_def)
  have d: "distinct (map key (upsert_by key q ?ys))"
    using assms(1) by (intro upsert_by_distinct)
  have len: "nat ?i < length (?ys[nat ?i := q])"
    using findIndex_first [OF pres] by simp
  show ?thesis
    using filter_unique_key [OF d [unfolded zs] len, of "key p"] assms(2) len
    by (simp add: zs)
qed

lemma post_suppliers_saves:
  assumes "authenticate verify header = Inr uid" "truthy (companyName p)"
  shows "post_suppliers verify header p kv =
           (Success ''Supplier saved successfully''
              (upsert_by companyName p (stored_suppliers kv uid)),
            kv\<lparr>user_suppliers := (user_suppliers kv)
                  (uid \<mapsto> upsert_by companyName p (stored_suppliers kv uid))\<rparr>)"
  using assms
  by (simp add: post_suppliers_def upsert_by_def stored_suppliers_def Let_def)

lemma stored_suppliers_update:
  "stored_suppliers (kv\<lparr>user_suppliers := (user_suppliers kv)(uid \<mapsto> ys)\<rparr>) uid = ys"
  by (simp add: stored_suppliers_def get_or_empty_def)

lemma post_suppliers_keeps_keys_distinct:
  assumes "authenticate verify header = Inr uid" "truthy (companyName p)"
    and "distinct (map companyName (stored_suppliers kv uid))"
  shows "distinct (map companyName
           (stored_suppliers (snd (post_suppliers verify header p kv)) uid))"
  using assms(3)
  by (simp add: post_suppliers_saves [OF assms(1,2)] stored_suppliers_update upsert_by_distinct)

lemma sample_authenticated:
  "authenticate sample_verify sample_header = Inr (ascii ''user-1'')"
  by (simp add: authenticate_def accessToken_of_def sample_header_def sample_verify_def
      ascii_def truthy_def)

lemma post_suppliers_store:
  "snd (post_suppliers verify header p kv) = kv \<or>
   (\<exists>uid. truthy (companyName p) \<and> authenticate verify header = Inr uid \<and>
      snd (post_suppliers verify header p kv)
        = kv\<lparr>user_suppliers := (user_suppliers kv)
               (uid \<mapsto> upsert_by companyName p (stored_suppliers kv uid))\<rparr>)"
proof (cases "authenticate verify header")
  case (Inl a)
  then show ?thesis by (cases a) (simp add: post_suppliers_def)
next
  case (Inr uid)
  show ?thesis
  proof (cases "truthy (companyName p)")
    case True
    then show ?thesis using Inr post_suppliers_saves [OF Inr True, of kv] by simp
  next
    case False
    then show ?thesis using Inr by (simp add: post_suppliers_def)
  qed
qed

lemma delete_supplier_store:
  "snd (delete_supplier verify header param kv) = kv \<or>
   (\<exists>uid key. snd (delete_supplier verify header param kv)
        = kv\<lparr>user_suppliers := (user_suppliers kv)
               (uid \<mapsto> filter (\<lambda>s. companyName s \<noteq> key) (stored_suppliers kv uid))\<rparr>)"
proof (cases "authenticate verify header")
  case (Inl a)
  then show ?thesis by (cases a) (simp add: delete_supplier_def)
next
  case (Inr uid)
  then show ?thesis
    by (cases "decodeURIComponent param") (auto simp: delete_supplier_def stored_suppliers_def Let_def)
qed

lemma stored_suppliers_other:
  "u \<noteq> uid \<Longrightarrow> stored_suppliers (kv\<lparr>user_suppliers := (user_suppliers kv)(uid \<mapsto> ys)\<rparr>) u
     = stored_suppliers kv u"
  by (simp add: stored_suppliers_def get_or_empty_def)

lemma reachable_suppliers_distinct:
  "reachable_suppliers verify kv \<Longrightarrow> distinct (map companyName (stored_suppliers kv u))"
proof (induction arbitrary: u rule: reachable_suppliers.induct)
  case (initial kv)
  then show ?case by (simp add: stored_suppliers_def get_or_empty_def)
next
  case (post kv header payload)
  from post_suppliers_store [of verify header payload kv] show ?case
  proof
    assume "snd (post_suppliers verify header payload kv) = kv"
    then show ?thesis using post.IH by simp
  next
    assume "\<exists>uid. truthy (companyName payload) \<and> authenticate verify header = Inr uid \<and>
      snd (post_suppliers verify header payload kv)
        = kv\<lparr>user_suppliers := (user_suppliers kv)
               (uid \<mapsto> upsert_by companyName payload (stored_suppliers kv uid))\<rparr>"
    then obtain uid where s: "snd (post_suppliers verify header payload kv)
        = kv\<lparr>user_suppliers := (user_suppliers kv)
               (uid \<mapsto> upsert_by companyName payload (stored_suppliers kv uid))\<rparr>" by blast
    show ?thesis
      unfolding s using post.IH [of u] post.IH [of uid]
      by (cases "u = uid") (simp_all add: stored_suppliers_update stored_suppliers_other upsert_by_distinct)
  qed
next
  case (delete kv header param)
  from delete_supplier_store [of verify header param kv] show ?case
  proof
    assume "snd (delete_supplier verify header param kv) = kv"
    then show ?thesis using delete.IH by simp
  next
    assume "\<exists>uid key. snd (delete_supplier verify header param kv)
        = kv\<lparr>user_suppliers := (user_suppliers kv)
               (uid \<mapsto> filter (\<lambda>s. companyName s \<noteq> key) (stored_suppliers kv uid))\<rparr>"
    then obtain uid key where s: "snd (delete_supplier verify header param kv)
        = kv\<lparr>user_suppliers := (user_suppliers kv)
               (uid \<mapsto> filter (\<lambda>s. companyName s \<noteq> key) (stored_suppliers kv uid))\<rparr>" by blast
    show ?thesis
      unfolding s using delete.IH [of u] delete.IH [of uid]
      by (cases "u = uid") (simp_all add: stored_suppliers_update stored_suppliers_other distinct_map_filter)
  qed
next
  case (other kv kv')
  then show ?case by (simp add: stored_suppliers_def)
qed

text \<open>
  C6.  For every store the service can hold and every authenticated \<open>POST /suppliers\<close>
  with a non-empty \<open>companyName\<close>: the answer carries the stored collection, which is the
  old one with the first record of that \<open>companyName\<close> replaced at its position (same
  length), or with the payload appended at the end when there is none.  A second post of
  the same \<open>companyName\<close> leaves the length as it was after the first, and the collection
  then holds exactly one record of that \<open>companyName\<close>, the second payload.
\<close>

theorem supplier_upsert:
  assumes reach: "reachable_suppliers verify kv"
    and auth: "authenticate verify header = Inr uid"
    and p: "truthy (companyName p)"
    and q: "companyName q = companyName p"
  shows "let xs = stored_suppliers kv uid;
             (r1, kv1) = post_suppliers verify header p kv;
             ys = stored_suppliers kv1 uid;
             (r2, kv2) = post_suppliers verify header q kv1;
             zs = stored_suppliers kv2 uid;
             i = findIndex (\<lambda>s. companyName s = companyName p) xs
         in r1 = Success ''Supplier saved successfully'' ys \<and>
            r2 = Success ''Supplier saved successfully'' zs \<and>
            (if \<exists>s \<in> set xs. companyName s = companyName p
             then 0 \<le> i \<and> nat i < length xs \<and> companyName (xs ! nat i) = companyName p \<and>
                  (\<forall>j. j < nat i \<longrightarrow> companyName (xs ! j) \<noteq> companyName p) \<and>
                  ys = xs[nat i := p] \<and> length ys = length xs
             else ys = xs @ [p]) \<and>
            length zs = length ys \<and>
            filter (\<lambda>s. companyName s = companyName p) zs = [q]"
proof -
  let ?xs = "stored_suppliers kv uid"
  let ?ys = "upsert_by companyName p ?xs"
  let ?zs = "upsert_by companyName q ?ys"
  let ?i = "findIndex (\<lambda>s. companyName s = companyName p) ?xs"
  have q': "truthy (companyName q)"
    using p q by simp
  have first:
    "(if \<exists>s \<in> set ?xs. companyName s = companyName p
      then 0 \<le> ?i \<and> nat ?i < length ?xs \<and> companyName (?xs ! nat ?i) = companyName p \<and>
           (\<forall>j. j < nat ?i \<longrightarrow> companyName (?xs ! j) \<noteq> companyName p) \<and>
           ?ys = ?xs[nat ?i := p] \<and> length ?ys = length ?xs
      else ?ys = ?xs @ [p])"
  proof (cases "0 \<le> ?i")
    case True
    then have "\<exists>s \<in> set ?xs. companyName s = companyName p"
      using findIndex_negative [of "\<lambda>s. companyName s = companyName p" ?xs] by auto
    then show ?thesis
      using True findIndex_first [OF True] by (simp add: upsert_by_def Let_def)
  next
    case False
    then have "\<not> (\<exists>s \<in> set ?xs. companyName s = companyName p)"
      using findIndex_negative [of "\<lambda>s. companyName s = companyName p" ?xs] by auto
    then show ?thesis
      using False by (simp add: upsert_by_def Let_def)
  qed
  have pres: "0 \<le> findIndex (\<lambda>s. companyName s = companyName q) ?ys"
    using upsert_by_present [of companyName p ?xs] q by simp
  have len: "length ?zs = length ?ys"
    using pres by (simp add: upsert_by_def [of companyName q] Let_def)
  have uniq: "filter (\<lambda>s. companyName s = companyName p) ?zs = [q]"
    using upsert_by_twice_unique [OF reachable_suppliers_distinct [OF reach, of uid], of q p] q
    by simp
  show ?thesis
    using first len uniq
    by (simp add: post_suppliers_saves [OF auth p] post_suppliers_saves [OF auth q']
        stored_suppliers_update Let_def)
qed

lemma DEFAULT_SUPPLIER_has_companyName: "truthy (companyName DEFAULT_SUPPLIER)"
  by (simp add: DEFAULT_SUPPLIER_def truthy_def)

theorem supplier_upsert_witness:
  "(let kv = snd (post_suppliers sample_verify sample_header DEFAULT_SUPPLIER empty_KV);
        p = DEFAULT_SUPPLIER\<lparr>fax := ascii ''01''\<rparr>;
        q = DEFAULT_SUPPLIER\<lparr>fax := ascii ''02''\<rparr>
    in reachable_suppliers sample_verify kv \<and>
       authenticate sample_verify sample_header = Inr (ascii ''user-1'') \<and>
       truthy (companyName p) \<and> companyName q = companyName p \<and>
       stored_suppliers kv (ascii ''user-1'') = [DEFAULT_SUPPLIER] \<and>
       filter (\<lambda>s. companyName s = companyName p)
         (stored_suppliers
            (snd (post_suppliers sample_verify sample_header q
               (snd (post_suppliers sample_verify sample_header p kv))))
            (ascii ''user-1'')) = [q])"
proof -
  define kv where "kv = snd (post_suppliers sample_verify sample_header DEFAULT_SUPPLIER empty_KV)"
  define p where "p = DEFAULT_SUPPLIER\<lparr>fax := ascii ''01''\<rparr>"
  define q where "q = DEFAULT_SUPPLIER\<lparr>fax := ascii ''02''\<rparr>"
  have r: "reachable_suppliers sample_verify kv"
    unfolding kv_def
    by (intro reachable_suppliers.post reachable_suppliers.initial) (simp add: empty_KV_def)
  have tp: "truthy (companyName p)"
    using DEFAULT_SUPPLIER_has_companyName by (simp add: p_def)
  have qp: "companyName q = companyName p"
    by (simp add: p_def q_def)
  have s: "stored_suppliers kv (ascii ''user-1'') = [DEFAULT_SUPPLIER]"
    using DEFAULT_SUPPLIER_has_companyName
    by (simp add: kv_def post_suppliers_def sample_authenticated stored_suppliers_def
        get_or_empty_def empty_KV_def Let_def)
  have "filter (\<lambda>s. companyName s = companyName p)
         (stored_suppliers
            (snd (post_suppliers sample_verify sample_header q
               (snd (post_suppliers sample_verify sample_header p kv))))
            (ascii ''user-1'')) = [q]"
    using supplier_upsert [OF r sample_authenticated tp qp]
    by (simp add: Let_def split_def)
  then show ?thesis
    using r tp qp s sample_authenticated
    unfolding kv_def [symmetric] p_def [symmetric] q_def [symmetric] Let_def by simp
qed

lemma sample_estimate_required_fields:
  "truthy (estimateNumber sample_estimate)" "truthy (clientName sample_estimate)"
  by (simp_all add: sample_estimate_def sample_document_def createInitialEstimate_def
      generateEstimateNumber_def Let_def split_def truthy_def ascii_def)

text \<open>
  What the two estimate handlers do for an authenticated request.  \<open>POST\<close> with non-empty
  \<open>estimateNumber\<close> and \<open>clientName\<close> returns the new record and puts it at the front of
  the user's list.  \<open>PUT\<close> answers 404 and stores nothing when no record of the user has
  the id; otherwise it replaces the first record with that id, at whatever position it
  stands, by the request body, keeps its id and its \<open>createdAt\<close>, and sets \<open>updatedAt\<close> to
  the reading of the clock.
\<close>

lemma post_estimates_prepends:
  assumes "authenticate verify header = Inr uid"
    and "truthy (estimateNumber doc)" "truthy (clientName doc)"
  shows "post_estimates verify header doc new_id created_now updated_now kv
           = (Success ''Estimate saved successfully''
                \<lparr>body = doc, id' = new_id, createdAt = created_now, updatedAt = updated_now\<rparr>,
              kv\<lparr>user_estimates := (user_estimates kv)
                    (uid \<mapsto> \<lparr>body = doc, id' = new_id, createdAt = created_now,
                              updatedAt = updated_now\<rparr> # stored_estimates kv uid)\<rparr>)"
  using assms by (simp add: post_estimates_def stored_estimates_def Let_def)

lemma put_estimates_not_found:
  assumes "authenticate verify header = Inr uid"
    and "\<forall>e \<in> set (stored_estimates kv uid). id' e \<noteq> estimateId"
  shows "put_estimates verify header estimateId doc now kv
           = (Failure 404 ''Estimate not found'', kv)"
  using assms findIndex_minus_1 [of "\<lambda>e. id' e = estimateId" "stored_estimates kv uid"]
  by (simp add: put_estimates_def stored_estimates_def Let_def)

lemma findIndex_unique_first:
  assumes "i < length xs" "p (xs ! i)" "\<forall>j < i. \<not> p (xs ! j)"
  shows "findIndex p xs = int i"
proof -
  have "\<not> findIndex p xs < 0"
    using assms(1,2) findIndex_negative [of p xs] nth_mem [of i xs] by blast
  then have nn: "0 \<le> findIndex p xs" by simp
  note f = findIndex_first [OF nn]
  have "\<not> nat (findIndex p xs) < i" using f assms(3) by blast
  moreover have "\<not> i < nat (findIndex p xs)" using f assms(2) by blast
  ultimately show ?thesis using nn by simp
qed

lemma put_estimates_replaces_by_id:
  assumes "authenticate verify header = Inr uid"
    and "i < length (stored_estimates kv uid)"
    and "id' (stored_estimates kv uid ! i) = estimateId"
    and "\<forall>j < i. id' (stored_estimates kv uid ! j) \<noteq> estimateId"
  shows "put_estimates verify header estimateId doc now kv
           = (Success ''Estimate updated successfully''
                \<lparr>body = doc, id' = estimateId,
                 createdAt = createdAt (stored_estimates kv uid ! i), updatedAt = now\<rparr>,
              kv\<lparr>user_estimates := (user_estimates kv)
                    (uid \<mapsto> (stored_estimates kv uid)
                       [i := \<lparr>body = doc, id' = estimateId,
                              createdAt = createdAt (stored_estimates kv uid ! i),
                              updatedAt = now\<rparr>])\<rparr>)"
proof -
  have "findIndex (\<lambda>e. id' e = estimateId) (stored_estimates kv uid) = int i"
    using assms(2,3,4) by (intro findIndex_unique_first) simp_all
  then show ?thesis
    using assms(1) by (simp add: put_estimates_def stored_estimates_def Let_def)
qed

text \<open>
  C7.  A \<open>POST /estimates\<close> during which the clock ticks between the two \<open>new Date()\<close>
  of the handler, the readings being 1000 and 1001: the returned record, which is also
  the one stored at the front of the list, has \<open>createdAt\<close> 1000 and \<open>updatedAt\<close> 1001,
  where the claim has the two equal.
\<close>

theorem post_estimate_timestamps_differ:
  "post_estimates sample_verify sample_header sample_estimate (ascii ''1000_k3x'') 1000 1001
     empty_KV
     = (Success ''Estimate saved successfully''
          \<lparr>body = sample_estimate, id' = ascii ''1000_k3x'', createdAt = 1000,
           updatedAt = 1001\<rparr>,
        empty_KV\<lparr>user_estimates :=
          [ascii ''user-1'' \<mapsto> [\<lparr>body = sample_estimate, id' = ascii ''1000_k3x'',
                                   createdAt = 1000, updatedAt = 1001\<rparr>]]\<rparr>) \<and>
   (1000 :: nat) \<noteq> 1001"
  using post_estimates_prepends [OF sample_authenticated sample_estimate_required_fields,
      of "ascii ''1000_k3x''" 1000 1001 empty_KV]
  by (simp add: stored_estimates_def get_or_empty_def empty_KV_def)

theorem post_estimate_timestamps_differ_witness:
  "(case fst (post_estimates sample_verify sample_header sample_estimate (ascii ''1000_k3x'')
               1000 1001 empty_KV) of
      Success message saved \<Rightarrow> createdAt saved = 1000 \<and> updatedAt saved = 1001
    | Failure status message \<Rightarrow> False)"
  using post_estimate_timestamps_differ by simp

lemma decodeURIComponent_stray_percent: "decodeURIComponent (ascii ''%'') = None"
  by (simp add: ascii_def)

lemma decodeURIComponent_plain:
  "37 \<notin> set s \<Longrightarrow> decodeURIComponent s = Some s"
  by (induction s) auto

lemma delete_supplier_no_match:
  assumes "authenticate verify header = Inr uid" "decodeURIComponent param = Some key"
    and "\<forall>s \<in> set (stored_suppliers kv uid). companyName s \<noteq> key"
  shows "fst (delete_supplier verify header param kv)
           = Success ''Supplier deleted successfully'' (stored_suppliers kv uid)"
  using assms by (simp add: delete_supplier_def stored_suppliers_def Let_def)

lemma delete_item_template_no_match:
  assumes "authenticate verify header = Inr uid"
    and "\<forall>t \<in> set (get_or_empty (user_item_templates kv) uid). Item.name t \<noteq> key"
  shows "fst (delete_item_template verify header key kv)
           = Success ''Item template deleted successfully''
               (get_or_empty (user_item_templates kv) uid)"
  using assms by (simp add: delete_item_template_def Let_def)

lemma delete_supplier_twice:
  assumes "authenticate verify header = Inr uid" "decodeURIComponent param = Some key"
  shows "delete_supplier verify header param (snd (delete_supplier verify header param kv))
           = delete_supplier verify header param kv"
  using assms by (simp add: delete_supplier_def get_or_empty_def Let_def)

lemma delete_item_template_twice:
  assumes "authenticate verify header = Inr uid"
  shows "delete_item_template verify header key
           (snd (delete_item_template verify header key kv))
           = delete_item_template verify header key kv"
  using assms by (simp add: delete_item_template_def get_or_empty_def Let_def)

text \<open>
  C8.  An authenticated \<open>DELETE\<close> whose route parameter is a lone percent sign, a key that
  matches no record of the empty collection: the supplier and the client handler answer
  with status 500, because \<open>decodeURIComponent\<close> throws on it, where the item-template
  handler, which does not decode, answers with status 200 and the unchanged collection.
\<close>

theorem delete_with_stray_percent:
  "delete_supplier sample_verify sample_header (ascii ''%'') empty_KV
     = (Failure 500 ''Error deleting supplier'', empty_KV) \<and>
   delete_client sample_verify sample_header (ascii ''%'') empty_KV
     = (Failure 500 ''Error deleting client'', empty_KV) \<and>
   fst (delete_item_template sample_verify sample_header (ascii ''%'') empty_KV)
     = Success ''Item template deleted successfully'' []"
  by (simp add: delete_supplier_def delete_client_def delete_item_template_def
      sample_authenticated decodeURIComponent_stray_percent get_or_empty_def empty_KV_def)

end
